theory Spec2Isabelle
  imports Complex_Main
begin

section \<open>Exponential relaxation models and their fit driver (relax.py)\<close>

text \<open>
  The closed forms and the driver are given over the mathematical reals: \<open>np.exp\<close> is
  \<open>exp\<close>, and rounding is outside this development. The one domain error that the driver
  itself can run into is written out: \<open>np.sqrt\<close> of a negative number is \<open>nan\<close> (see
  \<open>np_sqrt\<close>). Where a property of the model functions depends on the overflow of
  \<open>np.exp\<close> and on the special values of the float arithmetic, it is stated over the model
  functions on floats (see \<open>single_step_relaxation_float\<close>).
\<close>

subsection \<open>Model functions\<close>

definition single_step_relaxation :: "real \<Rightarrow> real \<Rightarrow> real \<Rightarrow> real \<Rightarrow> real" where
  "single_step_relaxation x a b c = a * (1 - exp (- b * x)) + c"

definition two_step_relaxation ::
  "real \<Rightarrow> real \<Rightarrow> real \<Rightarrow> real \<Rightarrow> real \<Rightarrow> real \<Rightarrow> real" where
  "two_step_relaxation x a b c d e =
     a * (1 - exp (- b * x)) + c * (1 - exp (- d * x)) + e"

definition three_step_relaxation ::
  "real \<Rightarrow> real \<Rightarrow> real \<Rightarrow> real \<Rightarrow> real \<Rightarrow> real \<Rightarrow> real \<Rightarrow> real \<Rightarrow> real" where
  "three_step_relaxation x a b c d e f g =
     a * (1 - exp (- b * x)) + c * (1 - exp (- d * x)) + e * (1 - exp (- f * x)) + g"

subsection \<open>Function objects, as the driver sees them\<close>

text \<open>
  The driver receives the model as a function object. It reads the names of its formal
  parameters (\<open>signature(f).parameters\<close>) and calls it with positional arguments
  (\<open>f(i, *parameters)\<close>); a call with the wrong number of arguments raises \<open>TypeError\<close>.
\<close>

type_synonym exn = string

datatype error = AssertionError | IndexError | TypeError | SolverRaised exn

record pyfunc =
  sig_parameters :: "string list"
  body :: "real list \<Rightarrow> real"

definition call :: "pyfunc \<Rightarrow> real list \<Rightarrow> error + real" where
  "call f args =
     (if length args = length (sig_parameters f) then Inr (body f args) else Inl TypeError)"

definition single_step :: pyfunc where
  "single_step =
     \<lparr>sig_parameters = [''x'', ''a'', ''b'', ''c''],
      body = (\<lambda>args. single_step_relaxation (args ! 0) (args ! 1) (args ! 2) (args ! 3))\<rparr>"

definition two_step :: pyfunc where
  "two_step =
     \<lparr>sig_parameters = [''x'', ''a'', ''b'', ''c'', ''d'', ''e''],
      body = (\<lambda>args. two_step_relaxation (args ! 0) (args ! 1) (args ! 2) (args ! 3)
                        (args ! 4) (args ! 5))\<rparr>"

definition three_step :: pyfunc where
  "three_step =
     \<lparr>sig_parameters = [''x'', ''a'', ''b'', ''c'', ''d'', ''e'', ''f'', ''g''],
      body = (\<lambda>args. three_step_relaxation (args ! 0) (args ! 1) (args ! 2) (args ! 3)
                        (args ! 4) (args ! 5) (args ! 6) (args ! 7))\<rparr>"

text \<open>\<open>len(signature(relaxation_function).parameters) - 1\<close>, an integer that is \<open>-1\<close> for a
  function of no arguments.\<close>

definition arity :: "pyfunc \<Rightarrow> int" where
  "arity f = int (length (sig_parameters f)) - 1"

subsection \<open>The fit driver\<close>

text \<open>
  The least-squares solver (\<open>scipy.optimize.curve_fit\<close>) is an external collaborator: it is
  a parameter of the driver. It receives the model, the data, the starting point \<open>p0\<close> and
  \<open>maxfev\<close>, and either raises or returns a parameter vector and a covariance matrix.
  Nothing is assumed about what it returns. The rendering of a number inside an f-string is
  external as well, and a parameter too (\<open>fmt\<close>).
\<close>

type_synonym matrix = "real list list"

type_synonym solver =
  "pyfunc \<Rightarrow> real list \<Rightarrow> real list \<Rightarrow> real list \<Rightarrow> int \<Rightarrow> exn + (real list \<times> matrix)"

text \<open>What a call does beyond returning: it calls the solver and it emits warnings.\<close>

datatype event = CurveFit "real list" "real list" "real list" int | Warn string

text \<open>\<open>covariance[index,index]\<close> on a two-dimensional array; out of range raises.\<close>

definition diagonal :: "matrix \<Rightarrow> nat \<Rightarrow> error + real" where
  "diagonal covariance index =
     (if index < length covariance \<and> index < length (covariance ! index)
      then Inr (covariance ! index ! index) else Inl IndexError)"

text \<open>\<open>np.sqrt\<close>: the square root of a negative number is \<open>nan\<close>, here \<open>None\<close>.\<close>

definition np_sqrt :: "real \<Rightarrow> real option" where
  "np_sqrt v = (if v < 0 then None else Some (sqrt v))"

definition alphabet :: string where
  "alphabet = ''abcdefghijklmnopqrstuvwxyz''"

definition letter :: "nat \<Rightarrow> error + char" where
  "letter index = (if index < length alphabet then Inr (alphabet ! index) else Inl IndexError)"

definition warning_message :: "(real \<Rightarrow> string) \<Rightarrow> char \<Rightarrow> real \<Rightarrow> real \<Rightarrow> string" where
  "warning_message fmt parameter_letter standard_dev val =
     ''Parameter '' @ [parameter_letter] @ '' has standard deviation ('' @ fmt standard_dev
       @ '') larger than its value('' @ fmt val @ '')''"

text \<open>
  The loop \<open>for index, value in enumerate(parameters)\<close>. It returns the warnings emitted so
  far and whether it ran to its end. Every comparison with \<open>nan\<close> is false, so a \<open>nan\<close>
  standard deviation flags nothing.
\<close>

fun check_parameters ::
  "(real \<Rightarrow> string) \<Rightarrow> matrix \<Rightarrow> (nat \<times> real) list \<Rightarrow> event list \<times> (error + unit)" where
  "check_parameters fmt covariance [] = ([], Inr ())"
| "check_parameters fmt covariance ((index, val) # rest) =
     (case diagonal covariance index of
        Inl e \<Rightarrow> ([], Inl e)
      | Inr v \<Rightarrow>
          (case np_sqrt v of
             None \<Rightarrow> check_parameters fmt covariance rest
           | Some standard_dev \<Rightarrow>
               if \<bar>val\<bar> < \<bar>standard_dev\<bar> then
                 (case letter index of
                    Inl e \<Rightarrow> ([], Inl e)
                  | Inr parameter_letter \<Rightarrow>
                      (case check_parameters fmt covariance rest of
                         (ws, r) \<Rightarrow>
                           (Warn (warning_message fmt parameter_letter standard_dev val) # ws, r)))
               else check_parameters fmt covariance rest))"

text \<open>\<open>[relaxation_function(i, *parameters) for i in x]\<close>; the first call that raises ends it.\<close>

fun y_calc :: "pyfunc \<Rightarrow> real list \<Rightarrow> real list \<Rightarrow> error + real list" where
  "y_calc relaxation_function parameters [] = Inr []"
| "y_calc relaxation_function parameters (i # x) =
     (case call relaxation_function (i # parameters) of
        Inl e \<Rightarrow> Inl e
      | Inr v \<Rightarrow>
          (case y_calc relaxation_function parameters x of
             Inl e \<Rightarrow> Inl e
           | Inr vs \<Rightarrow> Inr (v # vs)))"

type_synonym fit_result = "real list \<times> matrix \<times> real list"

definition relaxation_fit ::
  "solver \<Rightarrow> (real \<Rightarrow> string) \<Rightarrow> real list \<Rightarrow> real list \<Rightarrow> pyfunc \<Rightarrow> real list \<Rightarrow> int
     \<Rightarrow> event list \<times> (error + fit_result)" where
  "relaxation_fit curve_fit fmt x y relaxation_function initial_guess maxfev =
     (if int (length initial_guess) = arity relaxation_function then
        (case curve_fit relaxation_function x y initial_guess maxfev of
           Inl e \<Rightarrow> ([CurveFit x y initial_guess maxfev], Inl (SolverRaised e))
         | Inr (parameters, covariance) \<Rightarrow>
             (case check_parameters fmt covariance (enumerate 0 parameters) of
                (ws, Inl e) \<Rightarrow> (CurveFit x y initial_guess maxfev # ws, Inl e)
              | (ws, Inr u) \<Rightarrow>
                  (case y_calc relaxation_function parameters x of
                     Inl e \<Rightarrow> (CurveFit x y initial_guess maxfev # ws, Inl e)
                   | Inr ys \<Rightarrow>
                       (CurveFit x y initial_guess maxfev # ws,
                        Inr (parameters, covariance, ys)))))
      else ([], Inl AssertionError))"

text \<open>The defaults of the signature: the single-step model, the guess \<open>(1, 1, 1)\<close> and
  \<open>maxfev=5000\<close>.\<close>

definition relaxation_fit_default ::
  "solver \<Rightarrow> (real \<Rightarrow> string) \<Rightarrow> real list \<Rightarrow> real list \<Rightarrow> event list \<times> (error + fit_result)" where
  "relaxation_fit_default curve_fit fmt x y =
     relaxation_fit curve_fit fmt x y single_step [1, 1, 1] 5000"

subsection \<open>The model functions on floats\<close>

text \<open>
  The model functions are evaluated with numpy's float arithmetic, which never raises: a
  result too large for a float is an infinity, and an undefined one is \<open>nan\<close>. The
  identities between the model functions depend on that, so the functions are given a second
  time, operator for operator, over floats with their special values. A finite result within
  the range of a float is kept exact (rounding is not part of this development), and the two
  zeros are one value, which no comparison tells apart.
\<close>

datatype npfloat = Fin real | PInf | NInf | NaN

text \<open>\<open>sys.float_info.max\<close>, the largest finite float.\<close>

definition float_max :: real where
  "float_max = (2 ^ 53 - 1) * 2 ^ 971"

definition overflow :: "real \<Rightarrow> npfloat" where
  "overflow r = (if float_max < r then PInf else if r < - float_max then NInf else Fin r)"

fun np_neg :: "npfloat \<Rightarrow> npfloat" where
  "np_neg (Fin a) = Fin (- a)"
| "np_neg PInf = NInf"
| "np_neg NInf = PInf"
| "np_neg NaN = NaN"

fun np_add :: "npfloat \<Rightarrow> npfloat \<Rightarrow> npfloat" where
  "np_add NaN v = NaN"
| "np_add u NaN = NaN"
| "np_add (Fin a) (Fin b) = overflow (a + b)"
| "np_add PInf NInf = NaN"
| "np_add NInf PInf = NaN"
| "np_add PInf v = PInf"
| "np_add NInf v = NInf"
| "np_add (Fin a) v = v"

definition np_sub :: "npfloat \<Rightarrow> npfloat \<Rightarrow> npfloat" where
  "np_sub u v = np_add u (np_neg v)"

text \<open>An infinity times zero is \<open>nan\<close>; otherwise the signs multiply.\<close>

definition times_infinity :: "real \<Rightarrow> npfloat \<Rightarrow> npfloat" where
  "times_infinity a w = (if a = 0 then NaN else if 0 < a then w else np_neg w)"

fun np_mul :: "npfloat \<Rightarrow> npfloat \<Rightarrow> npfloat" where
  "np_mul NaN v = NaN"
| "np_mul u NaN = NaN"
| "np_mul (Fin a) (Fin b) = overflow (a * b)"
| "np_mul (Fin a) v = times_infinity a v"
| "np_mul u (Fin b) = times_infinity b u"
| "np_mul PInf v = v"
| "np_mul NInf v = np_neg v"

fun np_exp :: "npfloat \<Rightarrow> npfloat" where
  "np_exp (Fin t) = overflow (exp t)"
| "np_exp PInf = PInf"
| "np_exp NInf = Fin 0"
| "np_exp NaN = NaN"

text \<open>\<open>==\<close> on floats: \<open>nan\<close> equals nothing, itself included.\<close>

definition np_eq :: "npfloat \<Rightarrow> npfloat \<Rightarrow> bool" where
  "np_eq u v = (u \<noteq> NaN \<and> v \<noteq> NaN \<and> u = v)"

text \<open>\<open>np.isfinite\<close>: a number within the range of a float.\<close>

definition np_isfinite :: "npfloat \<Rightarrow> bool" where
  "np_isfinite u = (case u of Fin r \<Rightarrow> \<bar>r\<bar> \<le> float_max | PInf \<Rightarrow> False | NInf \<Rightarrow> False | NaN \<Rightarrow> False)"

text \<open>\<open>a*(1-np.exp(-b*x))+c\<close> and \<open>a*(1-np.exp(-b*x))+c*(1-np.exp(-d*x))+e\<close>, evaluated as
  Python does: \<open>-b\<close> first, products before sums, sums from the left.\<close>

definition single_step_relaxation_float ::
  "npfloat \<Rightarrow> npfloat \<Rightarrow> npfloat \<Rightarrow> npfloat \<Rightarrow> npfloat" where
  "single_step_relaxation_float x a b c =
     np_add (np_mul a (np_sub (Fin 1) (np_exp (np_mul (np_neg b) x)))) c"

definition two_step_relaxation_float ::
  "npfloat \<Rightarrow> npfloat \<Rightarrow> npfloat \<Rightarrow> npfloat \<Rightarrow> npfloat \<Rightarrow> npfloat \<Rightarrow> npfloat" where
  "two_step_relaxation_float x a b c d e =
     np_add (np_add (np_mul a (np_sub (Fin 1) (np_exp (np_mul (np_neg b) x))))
                    (np_mul c (np_sub (Fin 1) (np_exp (np_mul (np_neg d) x))))) e"

subsection \<open>A solver that fails, a solver that returns, and a rendering of numbers\<close>

text \<open>Used to run the driver on concrete inputs.\<close>

definition failing_solver :: solver where
  "failing_solver f x y g m = Inl ''RuntimeError''"

definition example_solver :: solver where
  "example_solver f x y g m = Inr ([2, 1 / 2, 1], [[1, 0, 0], [0, 4, 0], [0, 0, 0]])"

definition example_fmt :: "real \<Rightarrow> string" where
  "example_fmt r = ''r''"

section \<open>Facts about the loops and the driver\<close>

lemma y_calc_ok:
  "Suc (length p) = length (sig_parameters f) \<Longrightarrow> y_calc f p x = Inr (map (\<lambda>i. body f (i # p)) x)"
  by (induction x) (simp_all add: call_def)

lemma y_calc_Inr:
  "y_calc f p x = Inr ys \<Longrightarrow> length ys = length x \<and> (\<forall>i<length x. call f (x ! i # p) = Inr (ys ! i))"
proof (induction x arbitrary: ys)
  case Nil
  then show ?case by simp
next
  case (Cons a x)
  from Cons.prems obtain v vs where v: "call f (a # p) = Inr v"
    and vs: "y_calc f p x = Inr vs" and ys: "ys = v # vs"
    by (auto split: sum.splits)
  from Cons.IH [OF vs] have len: "length vs = length x"
    and nth: "\<forall>i<length x. call f (x ! i # p) = Inr (vs ! i)" by simp_all
  show ?case
  proof (intro conjI allI impI)
    show "length ys = length (a # x)" using len ys by simp
  next
    fix i assume "i < length (a # x)"
    then show "call f ((a # x) ! i # p) = Inr (ys ! i)"
      using v nth ys by (cases i) simp_all
  qed
qed

lemma check_parameters_ok:
  "\<forall>(i, v) \<in> set es. i < length cov \<and> i < length (cov ! i) \<and> i < length alphabet \<Longrightarrow>
   check_parameters fmt cov es =
     (map (\<lambda>(i, v). Warn (warning_message fmt (alphabet ! i) (sqrt (cov ! i ! i)) v))
        (filter (\<lambda>(i, v). 0 \<le> cov ! i ! i \<and> \<bar>v\<bar> < \<bar>sqrt (cov ! i ! i)\<bar>) es), Inr ())"
proof (induction es)
  case Nil
  then show ?case by simp
next
  case (Cons a es)
  obtain i v where a: "a = (i, v)" by (cases a)
  from Cons.prems a have i: "i < length cov" "i < length (cov ! i)" "i < length alphabet"
    by simp_all
  from Cons.prems have "\<forall>(i, v) \<in> set es. i < length cov \<and> i < length (cov ! i) \<and> i < length alphabet"
    by simp
  from Cons.IH [OF this] have IH: "check_parameters fmt cov es =
     (map (\<lambda>(i, v). Warn (warning_message fmt (alphabet ! i) (sqrt (cov ! i ! i)) v))
        (filter (\<lambda>(i, v). 0 \<le> cov ! i ! i \<and> \<bar>v\<bar> < \<bar>sqrt (cov ! i ! i)\<bar>) es), Inr ())" .
  have d: "diagonal cov i = Inr (cov ! i ! i)" using i by (simp add: diagonal_def)
  have l: "letter i = Inr (alphabet ! i)" using i by (simp add: letter_def)
  show ?case
  proof (cases "0 \<le> cov ! i ! i \<and> \<bar>v\<bar> < \<bar>sqrt (cov ! i ! i)\<bar>")
    case True
    then show ?thesis unfolding a by (simp add: d l IH np_sqrt_def)
  next
    case False
    then show ?thesis unfolding a by (auto simp add: d l IH np_sqrt_def)
  qed
qed

lemma enumerate_nth: "enumerate 0 p = map (\<lambda>i. (i, p ! i)) [0..<length p]"
  by (rule nth_equalityI) (simp_all add: nth_enumerate_eq)

lemma check_parameters_enumerate:
  assumes "length p \<le> length alphabet" "\<forall>i<length p. i < length cov \<and> i < length (cov ! i)"
  shows "check_parameters fmt cov (enumerate 0 p) =
     (map (\<lambda>i. Warn (warning_message fmt (alphabet ! i) (sqrt (cov ! i ! i)) (p ! i)))
        (filter (\<lambda>i. 0 \<le> cov ! i ! i \<and> \<bar>p ! i\<bar> < \<bar>sqrt (cov ! i ! i)\<bar>) [0..<length p]), Inr ())"
proof -
  have "\<forall>(i, v) \<in> set (enumerate 0 p). i < length cov \<and> i < length (cov ! i) \<and> i < length alphabet"
    using assms by (auto simp: enumerate_eq_zip in_set_zip)
  from check_parameters_ok [OF this, of fmt] show ?thesis
    by (simp add: enumerate_nth filter_map comp_def)
qed

lemma arity_single_step: "arity single_step = 3"
  by (simp add: arity_def single_step_def)

lemma arity_two_step: "arity two_step = 5"
  by (simp add: arity_def two_step_def)

lemma arity_three_step: "arity three_step = 7"
  by (simp add: arity_def three_step_def)

lemma relaxation_fit_mismatch:
  "int (length g) \<noteq> arity f \<Longrightarrow> relaxation_fit cf fmt x y f g m = ([], Inl AssertionError)"
  by (simp add: relaxation_fit_def)

lemma relaxation_fit_solver_raises:
  "int (length g) = arity f \<Longrightarrow> cf f x y g m = Inl e \<Longrightarrow>
   relaxation_fit cf fmt x y f g m = ([CurveFit x y g m], Inl (SolverRaised e))"
  by (simp add: relaxation_fit_def)

lemma relaxation_fit_invokes:
  "int (length g) = arity f \<Longrightarrow>
   \<exists>ws r. relaxation_fit cf fmt x y f g m = (CurveFit x y g m # ws, r) \<and> r \<noteq> Inl AssertionError"
proof -
  assume g: "int (length g) = arity f"
  show ?thesis
  proof (cases "cf f x y g m")
    case (Inl e)
    then show ?thesis using g by (simp add: relaxation_fit_def)
  next
    case (Inr pc)
    obtain p cov where pc: "pc = (p, cov)" by (cases pc)
    obtain ws u where c: "check_parameters fmt cov (enumerate 0 p) = (ws, u)"
      by (cases "check_parameters fmt cov (enumerate 0 p)")
    have no_assert: "u \<noteq> Inl AssertionError"
    proof -
      have "snd (check_parameters fmt cov es) \<noteq> Inl AssertionError" for es
        by (induction es)
          (auto simp: diagonal_def letter_def split: sum.splits option.splits prod.splits if_splits)
      from this [of "enumerate 0 p"] c show ?thesis by simp
    qed
    have y: "y_calc f p x \<noteq> Inl AssertionError"
      by (induction x) (auto simp: call_def split: sum.splits)
    show ?thesis using g Inr pc c no_assert y
      by (auto simp: relaxation_fit_def split: sum.splits)
  qed
qed

lemma relaxation_fit_returns:
  assumes g: "int (length g) = arity f"
    and s: "cf f x y g m = Inr (p, cov)"
    and p: "int (length p) = arity f"
    and l: "length p \<le> length alphabet"
    and c: "\<forall>i<length p. i < length cov \<and> i < length (cov ! i)"
  shows "relaxation_fit cf fmt x y f g m =
     (CurveFit x y g m #
        map (\<lambda>i. Warn (warning_message fmt (alphabet ! i) (sqrt (cov ! i ! i)) (p ! i)))
          (filter (\<lambda>i. 0 \<le> cov ! i ! i \<and> \<bar>p ! i\<bar> < \<bar>sqrt (cov ! i ! i)\<bar>) [0..<length p]),
      Inr (p, cov, map (\<lambda>i. body f (i # p)) x))"
proof -
  from p have "Suc (length p) = length (sig_parameters f)" by (simp add: arity_def)
  from y_calc_ok [OF this] have y: "y_calc f p x = Inr (map (\<lambda>i. body f (i # p)) x)" .
  show ?thesis
    using g s by (simp add: relaxation_fit_def check_parameters_enumerate [OF l c] y)
qed

lemma relaxation_fit_warnings:
  assumes g: "int (length g) = arity f"
    and s: "cf f x y g m = Inr (p, cov)"
    and l: "length p \<le> length alphabet"
    and c: "\<forall>i<length p. i < length cov \<and> i < length (cov ! i)"
  shows "fst (relaxation_fit cf fmt x y f g m) =
     CurveFit x y g m #
        map (\<lambda>i. Warn (warning_message fmt (alphabet ! i) (sqrt (cov ! i ! i)) (p ! i)))
          (filter (\<lambda>i. 0 \<le> cov ! i ! i \<and> \<bar>p ! i\<bar> < \<bar>sqrt (cov ! i ! i)\<bar>) [0..<length p])"
  using g s
  by (simp add: relaxation_fit_def check_parameters_enumerate [OF l c] split: sum.splits)

lemma relaxation_fit_Inr:
  assumes "relaxation_fit cf fmt x y f g m = (evs, Inr (p, cov, ys))"
  shows "int (length g) = arity f \<and> cf f x y g m = Inr (p, cov) \<and> y_calc f p x = Inr ys"
  using assms
  by (auto simp: relaxation_fit_def split: if_splits sum.splits prod.splits)

lemma example_run:
  "relaxation_fit example_solver example_fmt [0, 1] [1] single_step [1, 1, 1] 5000 =
     ([CurveFit [0, 1] [1] [1, 1, 1] 5000,
       Warn ''Parameter b has standard deviation (r) larger than its value(r)''],
      Inr ([2, 1 / 2, 1], [[1, 0, 0], [0, 4, 0], [0, 0, 0]],
           [single_step_relaxation 0 2 (1 / 2) 1, single_step_relaxation 1 2 (1 / 2) 1]))"
  by (simp add: relaxation_fit_def arity_def example_solver_def example_fmt_def
      enumerate_eq_zip diagonal_def np_sqrt_def letter_def alphabet_def warning_message_def
      call_def single_step_def)

lemma example_cov_square:
  "\<forall>i<length [2, 1 / 2, 1 :: real].
     i < length [[1, 0, 0], [0, 4, 0], [0, 0, 0 :: real]]
     \<and> i < length ([[1, 0, 0], [0, 4, 0], [0, 0, 0 :: real]] ! i)"
  by (simp add: All_less_Suc)

subsection \<open>Float arithmetic\<close>

lemma float_max_ge: "1024 \<le> float_max"
proof -
  have "(2 :: real) ^ 10 \<le> 2 ^ 971" by (rule power_increasing) simp_all
  then have a: "(1024 :: real) \<le> 2 ^ 971" by simp
  have "(2 :: real) ^ 1 \<le> 2 ^ 53" by (rule power_increasing) simp_all
  then have b: "(1 :: real) \<le> 2 ^ 53 - 1" by simp
  have "(1024 :: real) = 1 * 1024" by simp
  also have "\<dots> \<le> (2 ^ 53 - 1) * 2 ^ 971"
    using b a by (rule mult_mono) simp_all
  finally show ?thesis by (simp only: float_max_def)
qed

lemma float_max_pos: "1 \<le> float_max"
  using float_max_ge by linarith

lemma float_max_less: "float_max < 2 ^ 1024"
proof -
  have "((2 :: real) ^ 53 - 1) * 2 ^ 971 < 2 ^ 53 * 2 ^ 971"
    by (rule mult_strict_right_mono) simp_all
  also have "\<dots> = 2 ^ (53 + 971)" by (simp only: power_add)
  finally show ?thesis by (simp add: float_max_def)
qed

lemma exp_1000_overflows: "float_max < exp (1000 :: real)"
proof -
  have "(2 :: real) ^ 1024 \<le> 2 ^ (9 * 142)" by (rule power_increasing) simp_all
  also have "\<dots> = ((2 :: real) ^ 9) ^ 142" by (simp only: power_mult)
  also have "\<dots> \<le> ((5 / 2 :: real) ^ 7) ^ 142"
    by (rule power_mono) (simp_all add: power_divide)
  also have "\<dots> = (5 / 2 :: real) ^ (7 * 142)" by (simp only: power_mult)
  also have "\<dots> \<le> (5 / 2) ^ 1000" by (rule power_increasing) simp_all
  also have "\<dots> \<le> exp 1 ^ 1000"
  proof (rule power_mono)
    show "(5 / 2 :: real) \<le> exp 1"
      using exp_lower_Taylor_quadratic [of "1 :: real"] by simp
  qed simp
  also have "\<dots> = exp (1000 :: real)"
    using exp_of_nat_mult [of 1000 "1 :: real"] by simp
  finally show ?thesis using float_max_less by linarith
qed

lemma overflow_in_range: "overflow r = Fin t \<Longrightarrow> \<bar>t\<bar> \<le> float_max"
  by (auto simp: overflow_def split: if_splits)

lemma overflow_id: "\<bar>r\<bar> \<le> float_max \<Longrightarrow> overflow r = Fin r"
  by (auto simp: overflow_def)

lemma overflow_exp_nonpos: "t \<le> 0 \<Longrightarrow> overflow (exp t) = Fin (exp t)"
proof -
  assume "t \<le> 0"
  then have "exp t \<le> 1" by simp
  moreover have "0 \<le> exp t" by simp
  ultimately have "\<bar>exp t\<bar> \<le> float_max" using float_max_pos by linarith
  then show ?thesis by (rule overflow_id)
qed

lemma np_mul_in_range: "np_mul u v = Fin t \<Longrightarrow> \<bar>t\<bar> \<le> float_max"
  by (cases u; cases v) (auto simp: times_infinity_def dest: overflow_in_range split: if_splits)

lemma np_add_zero: "\<bar>t\<bar> \<le> float_max \<Longrightarrow> np_add (Fin t) (Fin 0) = Fin t"
  by (simp add: overflow_id)

lemma np_exp_finite:
  "np_isfinite (np_exp u) \<Longrightarrow> \<exists>r. np_exp u = Fin r \<and> 0 \<le> r \<and> r \<le> float_max"
  by (cases u) (auto simp: np_isfinite_def overflow_def split: if_splits)

lemma zero_term:
  assumes "np_isfinite (np_exp u)"
  shows "np_mul (Fin 0) (np_sub (Fin 1) (np_exp u)) = Fin 0"
proof -
  from np_exp_finite [OF assms] obtain r where r: "np_exp u = Fin r" "0 \<le> r" "r \<le> float_max"
    by blast
  have "\<bar>1 - r\<bar> \<le> float_max" using r float_max_pos by linarith
  then have "np_sub (Fin 1) (Fin r) = Fin (1 - r)"
    by (simp add: np_sub_def overflow_id)
  then show ?thesis using r float_max_pos by (simp add: overflow_id)
qed

lemma np_add_zero_right: "np_mul a w = T \<Longrightarrow> np_add T (Fin 0) = T"
  by (cases T) (auto dest: np_mul_in_range simp: overflow_id)

section \<open>Properties of the model functions\<close>


text \<open>
  C6. With zero amplitude the single-step model collapses to its offset wherever the
  exponential is finite: for every finite \<open>c\<close> and all \<open>x\<close> and \<open>b\<close> such that
  \<open>np.exp(-b*x)\<close> is finite (it has not overflowed to infinity and is not \<open>nan\<close>),
  \<open>single_step_relaxation(x, 0, b, c) == c\<close>. Where the exponential overflows this fails:
  at \<open>x = 1000\<close>, \<open>b = -1\<close>, \<open>c = 5\<close> the exponential is infinite, zero times infinity is
  \<open>nan\<close>, and the result is \<open>nan\<close>, which equals nothing.
\<close>

theorem single_step_zero_amplitude_finite:
  assumes "np_isfinite c" and "np_isfinite (np_exp (np_mul (np_neg b) x))"
  shows "np_eq (single_step_relaxation_float x (Fin 0) b c) c"
proof -
  from assms(1) obtain r where c: "c = Fin r" and r: "\<bar>r\<bar> \<le> float_max"
    by (cases c) (simp_all add: np_isfinite_def)
  show ?thesis
    using r by (simp add: single_step_relaxation_float_def zero_term [OF assms(2)] c np_eq_def
        overflow_id)
qed

theorem single_step_zero_amplitude_finite_witness:
  "np_eq (single_step_relaxation_float (Fin 1) (Fin 0) (Fin 1) (Fin 5)) (Fin 5)"
proof -
  have c: "np_isfinite (Fin 5)" using float_max_ge by (simp add: np_isfinite_def)
  have "exp (- 1 :: real) \<le> 1" by simp
  then have "exp (- 1 :: real) \<le> float_max" using float_max_pos by linarith
  then have e: "np_isfinite (np_exp (np_mul (np_neg (Fin 1)) (Fin 1)))"
    using float_max_pos by (simp add: np_isfinite_def overflow_id overflow_exp_nonpos)
  from single_step_zero_amplitude_finite [OF c e] show ?thesis .
qed

theorem single_step_zero_amplitude_counterexample:
  "single_step_relaxation_float (Fin 1000) (Fin 0) (Fin (- 1)) (Fin 5) = NaN
   \<and> \<not> np_eq (single_step_relaxation_float (Fin 1000) (Fin 0) (Fin (- 1)) (Fin 5)) (Fin 5)"
proof -
  have "\<bar>1000 :: real\<bar> \<le> float_max" using float_max_ge by simp
  then have "np_mul (np_neg (Fin (- 1))) (Fin 1000) = Fin 1000"
    by (simp add: overflow_id)
  then have "single_step_relaxation_float (Fin 1000) (Fin 0) (Fin (- 1)) (Fin 5) = NaN"
    using exp_1000_overflows
    by (simp add: single_step_relaxation_float_def overflow_def np_sub_def times_infinity_def)
  then show ?thesis by (simp add: np_eq_def)
qed

text \<open>
  C7. A two-step model whose second amplitude is zero is the single-step model wherever the
  second exponential is finite: for all \<open>x\<close>, \<open>a\<close>, \<open>b\<close>, \<open>d\<close>, \<open>e\<close> such that
  \<open>np.exp(-d*x)\<close> is finite, \<open>two_step_relaxation(x, a, b, 0, d, e)\<close> is the value of
  \<open>single_step_relaxation(x, a, b, e)\<close>, and the two compare equal with \<open>==\<close> unless that
  value is \<open>nan\<close>. Where the second exponential overflows this fails: at \<open>x = 1000\<close>,
  \<open>a = 1\<close>, \<open>b = 1\<close>, \<open>d = -1\<close>, \<open>e = 0\<close> the two-step model returns \<open>nan\<close> and the
  single-step model a number.
\<close>

theorem two_step_zero_second_amplitude_finite:
  assumes "np_isfinite (np_exp (np_mul (np_neg d) x))"
  shows "two_step_relaxation_float x a b (Fin 0) d e = single_step_relaxation_float x a b e
         \<and> (single_step_relaxation_float x a b e \<noteq> NaN \<longrightarrow>
              np_eq (two_step_relaxation_float x a b (Fin 0) d e)
                    (single_step_relaxation_float x a b e))"
proof -
  have "np_add (np_mul a (np_sub (Fin 1) (np_exp (np_mul (np_neg b) x)))) (Fin 0)
          = np_mul a (np_sub (Fin 1) (np_exp (np_mul (np_neg b) x)))"
    by (rule np_add_zero_right) (rule refl)
  then have "two_step_relaxation_float x a b (Fin 0) d e = single_step_relaxation_float x a b e"
    by (simp add: two_step_relaxation_float_def single_step_relaxation_float_def
        zero_term [OF assms])
  then show ?thesis by (simp add: np_eq_def)
qed

theorem two_step_zero_second_amplitude_finite_witness:
  "two_step_relaxation_float (Fin 1) (Fin 2) (Fin 3) (Fin 0) (Fin 1) (Fin 5)
     = single_step_relaxation_float (Fin 1) (Fin 2) (Fin 3) (Fin 5)"
proof -
  have "exp (- 1 :: real) \<le> 1" by simp
  then have "exp (- 1 :: real) \<le> float_max" using float_max_pos by linarith
  then have e: "np_isfinite (np_exp (np_mul (np_neg (Fin 1)) (Fin 1)))"
    using float_max_pos by (simp add: np_isfinite_def overflow_id overflow_exp_nonpos)
  from two_step_zero_second_amplitude_finite [OF e, of "Fin 2" "Fin 3" "Fin 5"]
  show ?thesis by simp
qed

theorem two_step_zero_second_amplitude_counterexample:
  "two_step_relaxation_float (Fin 1000) (Fin 1) (Fin 1) (Fin 0) (Fin (- 1)) (Fin 0) = NaN
   \<and> single_step_relaxation_float (Fin 1000) (Fin 1) (Fin 1) (Fin 0) = Fin (1 - exp (- 1000))
   \<and> \<not> np_eq (two_step_relaxation_float (Fin 1000) (Fin 1) (Fin 1) (Fin 0) (Fin (- 1)) (Fin 0))
             (single_step_relaxation_float (Fin 1000) (Fin 1) (Fin 1) (Fin 0))"
proof -
  have m: "\<bar>1000 :: real\<bar> \<le> float_max" using float_max_ge by simp
  have e: "exp (- 1000 :: real) \<le> 1" by simp
  have e0: "0 \<le> exp (- 1000 :: real)" by simp
  have r: "\<bar>1 - exp (- 1000 :: real)\<bar> \<le> float_max" "\<bar>exp (- 1000 :: real)\<bar> \<le> float_max"
    using e e0 float_max_pos by linarith+
  have first: "np_mul (Fin 1) (np_sub (Fin 1) (np_exp (np_mul (np_neg (Fin 1)) (Fin 1000))))
                 = Fin (1 - exp (- 1000))"
    using m r by (simp add: overflow_id np_sub_def overflow_exp_nonpos)
  have second: "np_mul (Fin 0) (np_sub (Fin 1) (np_exp (np_mul (np_neg (Fin (- 1))) (Fin 1000))))
                 = NaN"
    using m exp_1000_overflows
    by (simp add: overflow_id overflow_def np_sub_def times_infinity_def)
  have two: "two_step_relaxation_float (Fin 1000) (Fin 1) (Fin 1) (Fin 0) (Fin (- 1)) (Fin 0) = NaN"
    unfolding two_step_relaxation_float_def first second by simp
  have one: "single_step_relaxation_float (Fin 1000) (Fin 1) (Fin 1) (Fin 0)
               = Fin (1 - exp (- 1000))"
    unfolding single_step_relaxation_float_def first using r by (simp add: overflow_id)
  show ?thesis using two one by (simp add: np_eq_def)
qed

section \<open>Properties of the fit driver\<close>

text \<open>
  C1. A call whose initial guess has a length other than the model's parameter arity fails
  with the assertion error and without any event, so before the solver is invoked, whatever
  the solver is. A call whose guess has the right length passes that check and invokes the
  solver, with the data, the guess and \<open>maxfev\<close> as given: the first event is that call, and
  whatever the call then returns, it is not the assertion error.
\<close>

theorem arity_validation:
  "(int (length g) \<noteq> arity f \<longrightarrow>
      relaxation_fit cf fmt x y f g m = ([], Inl AssertionError))
   \<and> (int (length g) = arity f \<longrightarrow>
      (\<exists>ws r. relaxation_fit cf fmt x y f g m = (CurveFit x y g m # ws, r)
         \<and> r \<noteq> Inl AssertionError))"
  using relaxation_fit_mismatch [of g f cf fmt x y m] relaxation_fit_invokes [of g f cf fmt x y m]
  by blast

theorem arity_validation_witness:
  "relaxation_fit failing_solver example_fmt [0, 1] [1] single_step [1, 1] 5000
     = ([], Inl AssertionError)
   \<and> (\<exists>ws r. relaxation_fit failing_solver example_fmt [0, 1] [1] single_step [1, 1, 1] 5000
         = (CurveFit [0, 1] [1] [1, 1, 1] 5000 # ws, r) \<and> r \<noteq> Inl AssertionError)"
  using arity_validation [of "[1, 1]" single_step failing_solver example_fmt "[0, 1]" "[1]" 5000]
    arity_validation [of "[1, 1, 1]" single_step failing_solver example_fmt "[0, 1]" "[1]" 5000]
  by (simp add: arity_single_step)

text \<open>
  C2. When the solver returns \<open>p\<close> and \<open>cov\<close>, a covariance matrix that has a diagonal entry
  for every parameter, and there are at most 26 parameters, the events of the call are the
  solver call followed by one warning for exactly the indices \<open>i\<close> with
  \<open>\<bar>p ! i\<bar> < \<bar>sqrt (cov ! i ! i)\<bar>\<close>, in order of index (a negative diagonal entry has the
  standard deviation \<open>nan\<close>, which exceeds nothing). The warning for index \<open>i\<close> carries the
  \<open>i\<close>-th letter of the alphabet, the standard deviation and the value, in the form
  \<open>Parameter {letter} has standard deviation ({std}) larger than its value({value})\<close>. When
  every value's magnitude exceeds its standard deviation there is no warning. For the three
  models, the letters are the names of the parameters after \<open>x\<close>, in the order of the
  signature.
\<close>

theorem reliability_warnings:
  assumes "int (length g) = arity f"
    and "cf f x y g m = Inr (p, cov)"
    and "length p \<le> length alphabet"
    and "\<forall>i<length p. i < length cov \<and> i < length (cov ! i)"
  shows "fst (relaxation_fit cf fmt x y f g m) =
           CurveFit x y g m #
           map (\<lambda>i. Warn (warning_message fmt (alphabet ! i) (sqrt (cov ! i ! i)) (p ! i)))
             (filter (\<lambda>i. 0 \<le> cov ! i ! i \<and> \<bar>p ! i\<bar> < \<bar>sqrt (cov ! i ! i)\<bar>)
                [0..<length p])
         \<and> ((\<forall>i<length p. 0 \<le> cov ! i ! i \<and> \<bar>sqrt (cov ! i ! i)\<bar> < \<bar>p ! i\<bar>) \<longrightarrow>
               fst (relaxation_fit cf fmt x y f g m) = [CurveFit x y g m])
         \<and> warning_message fmt l s v =
             ''Parameter '' @ [l] @ '' has standard deviation ('' @ fmt s
               @ '') larger than its value('' @ fmt v @ '')''
         \<and> map (\<lambda>i. [alphabet ! i]) [0..<3] = tl (sig_parameters single_step)
         \<and> map (\<lambda>i. [alphabet ! i]) [0..<5] = tl (sig_parameters two_step)
         \<and> map (\<lambda>i. [alphabet ! i]) [0..<7] = tl (sig_parameters three_step)"
proof -
  let ?flag = "\<lambda>i. 0 \<le> cov ! i ! i \<and> \<bar>p ! i\<bar> < \<bar>sqrt (cov ! i ! i)\<bar>"
  have w: "fst (relaxation_fit cf fmt x y f g m) =
           CurveFit x y g m #
           map (\<lambda>i. Warn (warning_message fmt (alphabet ! i) (sqrt (cov ! i ! i)) (p ! i)))
             (filter ?flag [0..<length p])"
    by (rule relaxation_fit_warnings [where cf = cf and f = f and x = x and y = y and g = g
          and m = m and p = p and cov = cov, OF assms])
  have none: "fst (relaxation_fit cf fmt x y f g m) = [CurveFit x y g m]"
    if "\<forall>i<length p. 0 \<le> cov ! i ! i \<and> \<bar>sqrt (cov ! i ! i)\<bar> < \<bar>p ! i\<bar>"
  proof -
    from that have "filter ?flag [0..<length p] = []"
      by (auto simp: filter_empty_conv)
    with w show ?thesis by simp
  qed
  have l1: "map (\<lambda>i. [alphabet ! i]) [0..<3] = tl (sig_parameters single_step)"
    by (simp add: alphabet_def single_step_def upt_rec)
  have l2: "map (\<lambda>i. [alphabet ! i]) [0..<5] = tl (sig_parameters two_step)"
    by (simp add: alphabet_def two_step_def upt_rec)
  have l3: "map (\<lambda>i. [alphabet ! i]) [0..<7] = tl (sig_parameters three_step)"
    by (simp add: alphabet_def three_step_def upt_rec)
  have msg: "warning_message fmt l s v =
      ''Parameter '' @ [l] @ '' has standard deviation ('' @ fmt s
        @ '') larger than its value('' @ fmt v @ '')''"
    by (simp only: warning_message_def)
  from w none msg l1 l2 l3 show ?thesis by (intro conjI impI)
qed

theorem reliability_warnings_witness:
  "fst (relaxation_fit example_solver example_fmt [0, 1] [1] single_step [1, 1, 1] 5000) =
     [CurveFit [0, 1] [1] [1, 1, 1] 5000,
      Warn ''Parameter b has standard deviation (r) larger than its value(r)'']"
proof -
  have g: "int (length [1, 1, 1 :: real]) = arity single_step"
    by (simp add: arity_single_step)
  have s: "example_solver single_step [0, 1] [1] [1, 1, 1] 5000
             = Inr ([2, 1 / 2, 1], [[1, 0, 0], [0, 4, 0], [0, 0, 0]])"
    by (simp add: example_solver_def)
  have l: "length [2, 1 / 2, 1 :: real] \<le> length alphabet"
    by (simp add: alphabet_def)
  from reliability_warnings [where cf = example_solver and f = single_step and x = "[0, 1]"
      and y = "[1]" and g = "[1, 1, 1]" and m = 5000 and fmt = example_fmt,
      OF g s l example_cov_square]
  show ?thesis
    by (simp add: upt_rec alphabet_def example_fmt_def)
qed

text \<open>
  C3. A call that returns, returns the parameter vector and the covariance matrix that the
  solver returned, and a predicted sequence as long as \<open>x\<close> whose \<open>i\<close>-th entry is the model
  called on \<open>x ! i\<close> and the fitted parameters.
\<close>

theorem predicted_sequence:
  assumes "relaxation_fit cf fmt x y f g m = (evs, Inr (p, cov, ys))"
  shows "cf f x y g m = Inr (p, cov) \<and> length ys = length x
         \<and> (\<forall>i<length x. call f (x ! i # p) = Inr (ys ! i))"
  using relaxation_fit_Inr [OF assms] y_calc_Inr [of f p x ys] by simp

theorem predicted_sequence_witness:
  "example_solver single_step [0, 1] [1] [1, 1, 1] 5000
     = Inr ([2, 1 / 2, 1], [[1, 0, 0], [0, 4, 0], [0, 0, 0]])
   \<and> length [single_step_relaxation 0 2 (1 / 2) 1, single_step_relaxation 1 2 (1 / 2) 1]
       = length [0, 1 :: real]
   \<and> call single_step [0, 2, 1 / 2, 1] = Inr (single_step_relaxation 0 2 (1 / 2) 1)
   \<and> call single_step [1, 2, 1 / 2, 1] = Inr (single_step_relaxation 1 2 (1 / 2) 1)"
  using predicted_sequence [OF example_run] by (simp add: All_less_Suc)

text \<open>
  C5. When the solver returns a parameter vector of the model's arity (at most 26 entries)
  and a covariance matrix with a diagonal entry for each of them, the call returns that
  vector and that matrix as they are, whatever warnings it emits on the way: no hypothesis
  is made on which parameters are flagged.
\<close>

theorem warnings_leave_result_unmodified:
  assumes "int (length g) = arity f"
    and "cf f x y g m = Inr (p, cov)"
    and "int (length p) = arity f"
    and "length p \<le> length alphabet"
    and "\<forall>i<length p. i < length cov \<and> i < length (cov ! i)"
  shows "\<exists>ws ys. relaxation_fit cf fmt x y f g m = (CurveFit x y g m # ws, Inr (p, cov, ys))"
  using relaxation_fit_returns [where cf = cf and f = f and x = x and y = y and g = g
      and m = m and p = p and cov = cov and fmt = fmt, OF assms] by blast

theorem warnings_leave_result_unmodified_witness:
  "\<exists>ws ys. relaxation_fit example_solver example_fmt [0, 1] [1] single_step [1, 1, 1] 5000
     = (CurveFit [0, 1] [1] [1, 1, 1] 5000 # ws,
        Inr ([2, 1 / 2, 1], [[1, 0, 0], [0, 4, 0], [0, 0, 0]], ys))
     \<and> ws \<noteq> []"
proof -
  have g: "int (length [1, 1, 1 :: real]) = arity single_step"
    by (simp add: arity_single_step)
  have s: "example_solver single_step [0, 1] [1] [1, 1, 1] 5000
             = Inr ([2, 1 / 2, 1], [[1, 0, 0], [0, 4, 0], [0, 0, 0]])"
    by (simp add: example_solver_def)
  have p: "int (length [2, 1 / 2, 1 :: real]) = arity single_step"
    by (simp add: arity_single_step)
  have l: "length [2, 1 / 2, 1 :: real] \<le> length alphabet"
    by (simp add: alphabet_def)
  from warnings_leave_result_unmodified [where cf = example_solver and f = single_step
      and x = "[0, 1]" and y = "[1]" and g = "[1, 1, 1]" and m = 5000 and fmt = example_fmt,
      OF g s p l example_cov_square]
  show ?thesis
    by (simp add: example_run)
qed

text \<open>
  C8. No initial guess passes the arity validation of all three models: whatever the guess,
  the call is rejected with the assertion error for at least one of the single-step, the
  two-step and the three-step model. In particular the guess \<open>(1, 1, 1)\<close>, the default of
  the signature, is rejected for the two-step and the three-step model; with the default
  model, the single-step one, it passes the check.
\<close>

theorem no_universal_initial_guess:
  "(relaxation_fit cf fmt x y single_step g m = ([], Inl AssertionError)
    \<or> relaxation_fit cf fmt x y two_step g m = ([], Inl AssertionError)
    \<or> relaxation_fit cf fmt x y three_step g m = ([], Inl AssertionError))
   \<and> relaxation_fit cf fmt x y two_step [1, 1, 1] m = ([], Inl AssertionError)
   \<and> relaxation_fit cf fmt x y three_step [1, 1, 1] m = ([], Inl AssertionError)
   \<and> (\<exists>ws r. relaxation_fit_default cf fmt x y = (CurveFit x y [1, 1, 1] 5000 # ws, r)
         \<and> r \<noteq> Inl AssertionError)"
proof -
  have "int (length [1, 1, 1 :: real]) = arity single_step"
    by (simp add: arity_single_step)
  from relaxation_fit_invokes [OF this, of cf fmt x y 5000]
  have "\<exists>ws r. relaxation_fit_default cf fmt x y = (CurveFit x y [1, 1, 1] 5000 # ws, r)
         \<and> r \<noteq> Inl AssertionError"
    by (simp add: relaxation_fit_default_def)
  then show ?thesis
    by (simp add: relaxation_fit_def arity_single_step arity_two_step arity_three_step)
qed

text \<open>
  C9. Nothing in the driver relates the lengths of \<open>x\<close> and \<open>y\<close>, or the number of points
  to the arity. For all \<open>x\<close> and \<open>y\<close>, a guess of the model's arity passes the check and the
  solver is invoked on \<open>x\<close> and \<open>y\<close> as they are. If the solver raises, the call fails with
  what the solver raised and nothing else has happened; if the solver returns a parameter
  vector of the model's arity (at most 26 entries) and a covariance matrix with a diagonal
  entry for each of them, the call returns.
\<close>

theorem no_data_length_validation:
  assumes "int (length g) = arity f"
  shows "\<exists>ws r. relaxation_fit cf fmt x y f g m = (CurveFit x y g m # ws, r)
           \<and> r \<noteq> Inl AssertionError
           \<and> (\<forall>e. cf f x y g m = Inl e \<longrightarrow> ws = [] \<and> r = Inl (SolverRaised e))
           \<and> (\<forall>p cov. cf f x y g m = Inr (p, cov) \<and> int (length p) = arity f
                 \<and> length p \<le> length alphabet
                 \<and> (\<forall>i<length p. i < length cov \<and> i < length (cov ! i))
               \<longrightarrow> (\<exists>ys. r = Inr (p, cov, ys)))"
proof -
  from relaxation_fit_invokes [OF assms, of cf fmt x y m]
  obtain ws r where r: "relaxation_fit cf fmt x y f g m = (CurveFit x y g m # ws, r)"
    and na: "r \<noteq> Inl AssertionError" by blast
  have "ws = [] \<and> r = Inl (SolverRaised e)" if "cf f x y g m = Inl e" for e
    using relaxation_fit_solver_raises [where cf = cf and f = f and x = x and y = y and g = g
        and m = m and fmt = fmt, OF assms that] r by simp
  moreover have "\<exists>ys. r = Inr (p, cov, ys)"
    if "cf f x y g m = Inr (p, cov) \<and> int (length p) = arity f \<and> length p \<le> length alphabet
        \<and> (\<forall>i<length p. i < length cov \<and> i < length (cov ! i))" for p cov
  proof -
    from that have s: "cf f x y g m = Inr (p, cov)" and p: "int (length p) = arity f"
      and l: "length p \<le> length alphabet"
      and c: "\<forall>i<length p. i < length cov \<and> i < length (cov ! i)" by simp_all
    from relaxation_fit_returns [where cf = cf and f = f and x = x and y = y and g = g
        and m = m and fmt = fmt, OF assms s p l c] r show ?thesis by simp
  qed
  ultimately show ?thesis using r na by blast
qed

theorem no_data_length_validation_witness:
  "relaxation_fit failing_solver example_fmt [0, 1] [1] single_step [1, 1, 1] 5000
     = ([CurveFit [0, 1] [1] [1, 1, 1] 5000], Inl (SolverRaised ''RuntimeError''))"
proof -
  have g: "int (length [1, 1, 1 :: real]) = arity single_step"
    by (simp add: arity_single_step)
  from no_data_length_validation [OF g, of failing_solver example_fmt "[0, 1]" "[1]" 5000]
  show ?thesis by (auto simp: failing_solver_def)
qed

end
